theory Spec2Isabelle
  imports Complex_Main
begin

section \<open>The library store of qna-pdf-pal (src/store/libraryStore.ts)\<close>

text \<open>
  The store is a zustand store wrapped in the \<^verbatim>\<open>persist\<close> middleware. Its state is
  four fields (\<^verbatim>\<open>libraries\<close>, \<^verbatim>\<open>currentLibrary\<close>, \<^verbatim>\<open>conversations\<close>,
  \<^verbatim>\<open>currentConversation\<close>); its operations talk to a backend through \<^verbatim>\<open>fetch\<close>.

  The embedding is shallow: every operation is a HOL function on the store record. An
  asynchronous operation takes the store together with the state of the backend and
  returns an outcome (an error raised, or the value the promise resolves to), the store
  it leaves behind and the backend state it leaves behind. Operations run one after the
  other: two operations whose awaits interleave are outside this model.
\<close>

subsection \<open>Data model\<close>

text \<open>
  A JavaScript string is modelled as a \<^typ>\<open>string\<close>. A \<^verbatim>\<open>Date\<close> is kept as the
  string it was constructed from (\<^verbatim>\<open>new Date(s)\<close>): the store never reads a date.
  \<^verbatim>\<open>File\<close> is the browser's file object, opaque here.
\<close>

typedecl File

datatype Date = NewDate string

datatype Role = User | Assistant

record DocumentChunk =
  chunk_id :: string
  chunk_content :: string
  chunk_pageNumber :: int
  chunk_chunkIndex :: int

record PDFDocument =
  doc_id :: string
  doc_name :: string
  doc_file :: "File option"
  doc_uploadDate :: Date
  doc_tags :: "string option"
  doc_chunks :: "DocumentChunk list"
  doc_embeddings :: "real list list option"

record Library =
  lib_id :: string
  lib_name :: string
  lib_description :: "string option"
  lib_documents :: "PDFDocument list"
  lib_createdAt :: Date
  lib_tags :: "string list option"

record ChatMessage =
  msg_id :: string
  msg_content :: string
  msg_role :: Role
  msg_timestamp :: Date
  msg_sources :: "string list option"

record Conversation =
  conv_id :: string
  conv_libraryId :: string
  conv_title :: string
  conv_messages :: "ChatMessage list"
  conv_createdAt :: Date
  conv_updatedAt :: Date

text \<open>The data fields of \<^verbatim>\<open>LibraryStore\<close>; its methods are the functions below.\<close>

record LibraryStore =
  libraries :: "Library list"
  currentLibrary :: "Library option"
  conversations :: "Conversation list"
  currentConversation :: "Conversation option"

definition initial_store :: LibraryStore where
  "initial_store =
     \<lparr>libraries = [], currentLibrary = None, conversations = [], currentConversation = None\<rparr>"

subsection \<open>Local operations on documents\<close>

text \<open>
  \<^verbatim>\<open>addDocument\<close> and \<^verbatim>\<open>removeDocument\<close> are synchronous and call \<^verbatim>\<open>set\<close> once. They
  are written on the pair of store and backend state like every other operation, so that
  what they do to the backend (nothing) can be stated.
\<close>

definition addDocument ::
  "string \<Rightarrow> PDFDocument \<Rightarrow> LibraryStore \<times> 'b \<Rightarrow> LibraryStore \<times> 'b" where
  "addDocument libraryId document w =
     (case w of (state, b) \<Rightarrow>
        (state\<lparr>libraries :=
            map (\<lambda>lib. if lib_id lib = libraryId
                        then lib\<lparr>lib_documents := lib_documents lib @ [document]\<rparr>
                        else lib)
                (libraries state)\<rparr>, b))"

definition removeDocument ::
  "string \<Rightarrow> string \<Rightarrow> LibraryStore \<times> 'b \<Rightarrow> LibraryStore \<times> 'b" where
  "removeDocument libraryId documentId w =
     (case w of (state, b) \<Rightarrow>
        (state\<lparr>libraries :=
            map (\<lambda>lib. if lib_id lib = libraryId
                        then lib\<lparr>lib_documents :=
                               filter (\<lambda>doc. doc_id doc \<noteq> documentId) (lib_documents lib)\<rparr>
                        else lib)
                (libraries state)\<rparr>, b))"

subsection \<open>Persistence: partialize and migrate\<close>

text \<open>
  The record written to storage under the key \<^verbatim>\<open>library-store\<close>. What is read back is
  untyped (\<^verbatim>\<open>persistedState as any\<close>): a field missing from the stored JSON is \<open>None\<close>,
  and fields other than the two named ones live in the record's extension, which the
  object spread \<^verbatim>\<open>...state\<close> carries over.
\<close>

record PersistedState =
  p_libraries :: "Library list option"
  p_conversations :: "Conversation list option"

definition partialize :: "LibraryStore \<Rightarrow> PersistedState" where
  "partialize state =
     \<lparr>p_libraries = Some (libraries state), p_conversations = Some (conversations state)\<rparr>"

text \<open>
  The regular expression of \<^verbatim>\<open>migrate\<close>,
  \<^verbatim>\<open>/^[0-9a-f]{8}-[0-9a-f]{4}-[0-9a-f]{4}-[0-9a-f]{4}-[0-9a-f]{12}$/i\<close>.
  Between \<^verbatim>\<open>^\<close> and \<^verbatim>\<open>$\<close> it is a sequence of one-character atoms (a class of ranges
  or a literal), each with an exact repetition count, so \<^verbatim>\<open>test\<close> compares the string
  with the atoms from left to right and accepts when both end together (no flag \<^verbatim>\<open>m\<close>:
  \<^verbatim>\<open>$\<close> is the end of the input; no flag \<^verbatim>\<open>g\<close>: \<^verbatim>\<open>test\<close> keeps no position).

  Under the flag \<^verbatim>\<open>i\<close> two characters match when their canonical forms (upper case)
  are equal. Characters are compared by their codes. A code of 128 or more is left as it
  is: the canonical form of such a character is never below 128, so against the ASCII atoms
  of this pattern the outcome is the same.
\<close>

definition canonicalize :: "nat \<Rightarrow> nat" where
  "canonicalize n = (if 97 \<le> n \<and> n \<le> 122 then n - 32 else n)"

datatype atom = CharClass "(char \<times> char) list" | Lit char

fun char_matches :: "atom \<Rightarrow> char \<Rightarrow> bool" where
  "char_matches (Lit l) c = (canonicalize (of_char l) = canonicalize (of_char c))"
| "char_matches (CharClass rs) c =
     list_ex (\<lambda>(lo, hi). list_ex (\<lambda>n. canonicalize n = canonicalize (of_char c))
                                  [of_char lo ..< Suc (of_char hi)]) rs"

fun match_atoms :: "atom list \<Rightarrow> string \<Rightarrow> bool" where
  "match_atoms [] s = (s = [])"
| "match_atoms (a # as) [] = False"
| "match_atoms (a # as) (c # s) = (char_matches a c \<and> match_atoms as s)"

text \<open>A pattern is the list of its atoms with their counts: \<open>(a, n)\<close> is \<^verbatim>\<open>a{n}\<close>.\<close>

definition regex_test :: "(atom \<times> nat) list \<Rightarrow> string \<Rightarrow> bool" where
  "regex_test r s = match_atoms (concat (map (\<lambda>(a, n). replicate n a) r)) s"

definition hex :: atom where
  "hex = CharClass [(CHR ''0'', CHR ''9''), (CHR ''a'', CHR ''f'')]"

definition uuidRegex :: "(atom \<times> nat) list" where
  "uuidRegex = [(hex, 8), (Lit CHR ''-'', 1), (hex, 4), (Lit CHR ''-'', 1), (hex, 4),
                (Lit CHR ''-'', 1), (hex, 4), (Lit CHR ''-'', 1), (hex, 12)]"

text \<open>
  \<^verbatim>\<open>migrate\<close> ignores its \<^verbatim>\<open>version\<close> argument. \<^verbatim>\<open>state.conversations || []\<close> reads a
  missing field as the empty list.
\<close>

definition migrate :: "'a PersistedState_scheme \<Rightarrow> nat \<Rightarrow> 'a PersistedState_scheme" where
  "migrate persistedState version =
     persistedState\<lparr>p_conversations :=
       Some (filter (\<lambda>conv. regex_test uuidRegex (conv_id conv))
               (case p_conversations persistedState of None \<Rightarrow> [] | Some cs \<Rightarrow> cs))\<rparr>"

text \<open>
  The pattern in the words of the specification: 36 characters, hexadecimal digits of
  either case in groups of 8, 4, 4, 4 and 12, a hyphen between two groups.
\<close>

definition is_hex_digit :: "char \<Rightarrow> bool" where
  "is_hex_digit c = (c \<in> set ''0123456789abcdefABCDEF'')"

definition uuid_pattern :: "string \<Rightarrow> bool" where
  "uuid_pattern s =
     (length s = 36 \<and>
      list_all is_hex_digit (take 8 s) \<and> s ! 8 = CHR ''-'' \<and>
      list_all is_hex_digit (take 4 (drop 9 s)) \<and> s ! 13 = CHR ''-'' \<and>
      list_all is_hex_digit (take 4 (drop 14 s)) \<and> s ! 18 = CHR ''-'' \<and>
      list_all is_hex_digit (take 4 (drop 19 s)) \<and> s ! 23 = CHR ''-'' \<and>
      list_all is_hex_digit (drop 24 s))"

subsection \<open>The backend\<close>

text \<open>
  What \<^verbatim>\<open>await fetch(...)\<close> gives: the promise rejects (the backend cannot be reached),
  or it resolves to a response with its \<^verbatim>\<open>ok\<close> flag and a body. The body is \<open>None\<close>
  when \<^verbatim>\<open>res.json()\<close> rejects or gives a value on which the code that follows raises
  (\<^verbatim>\<open>libs.map\<close> on a value that is no array), and otherwise the JSON value, at the shape
  the store's interfaces declare for it.

  The backend is any deterministic state machine: each call takes the backend's state and
  returns the response and the next state. Only the calls of the operations modelled here
  are listed.
\<close>

datatype 'a Response = Rejected | Response bool "'a option"

record raw_document =
  rd_id :: string
  rd_name :: string
  rd_upload_date :: string
  rd_tags :: "string option"
  rd_chunks :: "DocumentChunk list option"
  rd_embeddings :: "real list list option"

record raw_library =
  rl_id :: string
  rl_name :: string
  rl_description :: "string option"
  rl_created_at :: string
  rl_tags :: "string option"

record raw_conversation =
  rc_id :: string
  rc_library_id :: string
  rc_title :: string
  rc_messages :: "ChatMessage list"
  rc_created_at :: string
  rc_updated_at :: string

record 'b RemoteGateway =
  get_libraries :: "'b \<Rightarrow> raw_library list Response \<times> 'b"
  get_documents :: "string \<Rightarrow> 'b \<Rightarrow> raw_document list Response \<times> 'b"
  get_conversations :: "string \<Rightarrow> 'b \<Rightarrow> raw_conversation list Response \<times> 'b"
  post_conversation :: "string \<Rightarrow> string \<Rightarrow> 'b \<Rightarrow> unit Response \<times> 'b"
  get_conversation :: "string \<Rightarrow> 'b \<Rightarrow> raw_conversation Response \<times> 'b"
  post_message :: "string \<Rightarrow> ChatMessage \<Rightarrow> 'b \<Rightarrow> unit Response \<times> 'b"

text \<open>
  What an operation can raise: \<^verbatim>\<open>new Error(msg)\<close> thrown by the store itself, the
  rejection of \<^verbatim>\<open>fetch\<close>, and the failure to read a body.
\<close>

datatype error = Error string | FetchRejected | BadBody

subsection \<open>Normalising what the backend sends\<close>

text \<open>
  \<^verbatim>\<open>String.prototype.split(",")\<close> and \<^verbatim>\<open>String.prototype.trim()\<close>, the latter on the
  white space and line terminators with a code below 256.
\<close>

fun split_on :: "char \<Rightarrow> string \<Rightarrow> string list" where
  "split_on sep [] = [ [] ]"
| "split_on sep (c # s) =
     (if c = sep then [] # split_on sep s
      else (case split_on sep s of [] \<Rightarrow> [ [c] ] | w # ws \<Rightarrow> (c # w) # ws))"

definition is_space :: "char \<Rightarrow> bool" where
  "is_space c = ((of_char c :: nat) \<in> {9, 10, 11, 12, 13, 32, 160})"

definition trim :: "string \<Rightarrow> string" where
  "trim s = rev (dropWhile is_space (rev (dropWhile is_space s)))"

text \<open>
  The object built for a document in \<^verbatim>\<open>fetchLibraries\<close>:
  \<^verbatim>\<open>{...doc, uploadDate: new Date(doc.upload_date), tags: doc.tags || "", chunks: doc.chunks || []}\<close>.
  The empty string is falsy, an array is not.
\<close>

definition document_of_raw :: "raw_document \<Rightarrow> PDFDocument" where
  "document_of_raw doc =
     \<lparr>doc_id = rd_id doc, doc_name = rd_name doc, doc_file = None,
      doc_uploadDate = NewDate (rd_upload_date doc),
      doc_tags = Some (case rd_tags doc of None \<Rightarrow> [] | Some t \<Rightarrow> t),
      doc_chunks = (case rd_chunks doc of None \<Rightarrow> [] | Some cs \<Rightarrow> cs),
      doc_embeddings = rd_embeddings doc\<rparr>"

text \<open>
  The object built for a library:
  \<^verbatim>\<open>{...lib, documents: docs.map(...), createdAt: new Date(lib.created_at),
    tags: lib.tags ? lib.tags.split(",").map((tag) => tag.trim()) : []}\<close>.
\<close>

definition library_of_raw :: "raw_library \<Rightarrow> raw_document list \<Rightarrow> Library" where
  "library_of_raw lib docs =
     \<lparr>lib_id = rl_id lib, lib_name = rl_name lib, lib_description = rl_description lib,
      lib_documents = map document_of_raw docs,
      lib_createdAt = NewDate (rl_created_at lib),
      lib_tags = Some (case rl_tags lib of
                         None \<Rightarrow> []
                       | Some t \<Rightarrow> if t = [] then [] else map trim (split_on CHR '','' t))\<rparr>"

text \<open>
  The object built for a conversation, in \<^verbatim>\<open>fetchAllConversations\<close> and in
  \<^verbatim>\<open>fetchConversation\<close>: \<^verbatim>\<open>libraryId\<close>, \<^verbatim>\<open>createdAt\<close> and \<^verbatim>\<open>updatedAt\<close> are set from
  \<^verbatim>\<open>library_id\<close>, \<^verbatim>\<open>created_at\<close> and \<^verbatim>\<open>updated_at\<close>; the other fields are the body's.
\<close>

definition conversation_of_raw :: "raw_conversation \<Rightarrow> Conversation" where
  "conversation_of_raw conv =
     \<lparr>conv_id = rc_id conv, conv_libraryId = rc_library_id conv, conv_title = rc_title conv,
      conv_messages = rc_messages conv,
      conv_createdAt = NewDate (rc_created_at conv),
      conv_updatedAt = NewDate (rc_updated_at conv)\<rparr>"

text \<open>The object spread \<^verbatim>\<open>{ ...c, ...conv }\<close>: every field of \<open>conv\<close> overwrites that of \<open>c\<close>.\<close>

definition spread_conversation :: "Conversation \<Rightarrow> Conversation \<Rightarrow> Conversation" where
  "spread_conversation c conv =
     c\<lparr>conv_id := conv_id conv, conv_libraryId := conv_libraryId conv,
       conv_title := conv_title conv, conv_messages := conv_messages conv,
       conv_createdAt := conv_createdAt conv, conv_updatedAt := conv_updatedAt conv\<rparr>"

subsection \<open>Operations on conversations\<close>

text \<open>
  The loop of \<^verbatim>\<open>fetchAllConversations\<close> over the libraries read at its start, with the
  accumulator \<^verbatim>\<open>allConvs\<close>. A response that is not \<^verbatim>\<open>ok\<close> is skipped; its body is not
  read.
\<close>

fun fetch_conversations_loop ::
  "'b RemoteGateway \<Rightarrow> Library list \<Rightarrow> Conversation list \<Rightarrow> 'b
     \<Rightarrow> (error + Conversation list) \<times> 'b" where
  "fetch_conversations_loop gw [] allConvs b = (Inr allConvs, b)"
| "fetch_conversations_loop gw (lib # libs) allConvs b =
     (case get_conversations gw (lib_id lib) b of
        (Rejected, b') \<Rightarrow> (Inl FetchRejected, b')
      | (Response ok body, b') \<Rightarrow>
          if ok then
            (case body of
               None \<Rightarrow> (Inl BadBody, b')
             | Some convs \<Rightarrow>
                 fetch_conversations_loop gw libs
                   (allConvs @ map conversation_of_raw convs) b')
          else fetch_conversations_loop gw libs allConvs b')"

definition fetchAllConversations ::
  "'b RemoteGateway \<Rightarrow> LibraryStore \<times> 'b \<Rightarrow> (error + unit) \<times> LibraryStore \<times> 'b" where
  "fetchAllConversations gw w =
     (case w of (state, b) \<Rightarrow>
        (case fetch_conversations_loop gw (libraries state) [] b of
           (Inl e, b') \<Rightarrow> (Inl e, state, b')
         | (Inr allConvs, b') \<Rightarrow> (Inr (), state\<lparr>conversations := allConvs\<rparr>, b')))"

definition fetchConversation ::
  "'b RemoteGateway \<Rightarrow> string \<Rightarrow> LibraryStore \<times> 'b
     \<Rightarrow> (error + Conversation) \<times> LibraryStore \<times> 'b" where
  "fetchConversation gw conversationId w =
     (case w of (state, b) \<Rightarrow>
        (case get_conversation gw conversationId b of
           (Rejected, b') \<Rightarrow> (Inl FetchRejected, state, b')
         | (Response ok body, b') \<Rightarrow>
             if \<not> ok then (Inl (Error ''Failed to fetch conversation''), state, b')
             else
               (case body of
                  None \<Rightarrow> (Inl BadBody, state, b')
                | Some raw \<Rightarrow>
                    let conv = conversation_of_raw raw in
                    (Inr conv,
                     state\<lparr>conversations :=
                             map (\<lambda>c. if conv_id c = conversationId
                                       then spread_conversation c conv else c)
                                 (conversations state),
                           currentConversation := Some conv\<rparr>,
                     b'))))"

text \<open>\<^verbatim>\<open>addMessage\<close> awaits \<^verbatim>\<open>fetchConversation\<close> and drops its value.\<close>

definition addMessage ::
  "'b RemoteGateway \<Rightarrow> string \<Rightarrow> ChatMessage \<Rightarrow> LibraryStore \<times> 'b
     \<Rightarrow> (error + unit) \<times> LibraryStore \<times> 'b" where
  "addMessage gw conversationId message w =
     (case w of (state, b) \<Rightarrow>
        (case post_message gw conversationId message b of
           (Rejected, b') \<Rightarrow> (Inl FetchRejected, state, b')
         | (Response ok body, b') \<Rightarrow>
             if \<not> ok then (Inl (Error ''Failed to save message''), state, b')
             else
               (case fetchConversation gw conversationId (state, b') of
                  (Inl e, w') \<Rightarrow> (Inl e, w')
                | (Inr conv, w') \<Rightarrow> (Inr (), w'))))"

text \<open>
  \<^verbatim>\<open>createConversation\<close> returns \<^verbatim>\<open>conversations.find(...)\<close>, which is \<^verbatim>\<open>undefined\<close>
  (\<open>None\<close>) when no element satisfies the predicate.
\<close>

definition createConversation ::
  "'b RemoteGateway \<Rightarrow> string \<Rightarrow> string \<Rightarrow> LibraryStore \<times> 'b
     \<Rightarrow> (error + Conversation option) \<times> LibraryStore \<times> 'b" where
  "createConversation gw libraryId title w =
     (case w of (state, b) \<Rightarrow>
        (case post_conversation gw libraryId title b of
           (Rejected, b') \<Rightarrow> (Inl FetchRejected, state, b')
         | (Response ok body, b') \<Rightarrow>
             if \<not> ok then (Inl (Error ''Failed to create conversation''), state, b')
             else
               (case fetchAllConversations gw (state, b') of
                  (Inl e, w') \<Rightarrow> (Inl e, w')
                | (Inr u, state', b'') \<Rightarrow>
                    (Inr (find (\<lambda>c. conv_libraryId c = libraryId \<and> conv_title c = title)
                            (conversations state')),
                     state', b''))))"

subsection \<open>fetchLibraries\<close>

text \<open>
  The documents of every library. \<^verbatim>\<open>Promise.all\<close> over \<^verbatim>\<open>libs.map(async ...)\<close> issues the
  requests in list order; the model answers them in that order and stops at the first
  one that raises. \<^verbatim>\<open>docRes.ok\<close> is not looked at.
\<close>

fun fetch_documents_all ::
  "'b RemoteGateway \<Rightarrow> raw_library list \<Rightarrow> 'b \<Rightarrow> (error + Library list) \<times> 'b" where
  "fetch_documents_all gw [] b = (Inr [], b)"
| "fetch_documents_all gw (lib # libs) b =
     (case get_documents gw (rl_id lib) b of
        (Rejected, b') \<Rightarrow> (Inl FetchRejected, b')
      | (Response ok body, b') \<Rightarrow>
          (case body of
             None \<Rightarrow> (Inl BadBody, b')
           | Some docs \<Rightarrow>
               (case fetch_documents_all gw libs b' of
                  (Inl e, b'') \<Rightarrow> (Inl e, b'')
                | (Inr rest, b'') \<Rightarrow> (Inr (library_of_raw lib docs # rest), b''))))"

text \<open>
  The function passed to \<^verbatim>\<open>set\<close> in \<^verbatim>\<open>fetchLibraries\<close>, given the new \<^verbatim>\<open>libraries\<close>.
\<close>

definition set_libraries :: "Library list \<Rightarrow> LibraryStore \<Rightarrow> LibraryStore" where
  "set_libraries libs state =
     (let first = (if length libs > 0 then Some (libs ! 0) else None);
          current = (case currentLibrary state of
                       None \<Rightarrow> first
                     | Some cur \<Rightarrow>
                         if \<not> list_ex (\<lambda>lib. lib_id lib = lib_id cur) libs
                         then first else Some cur)
      in state\<lparr>libraries := libs, currentLibrary := current\<rparr>)"

text \<open>\<^verbatim>\<open>res.ok\<close> is not looked at here either: the body is read whatever the status.\<close>

definition fetchLibraries ::
  "'b RemoteGateway \<Rightarrow> LibraryStore \<times> 'b \<Rightarrow> (error + unit) \<times> LibraryStore \<times> 'b" where
  "fetchLibraries gw w =
     (case w of (state, b) \<Rightarrow>
        (case get_libraries gw b of
           (Rejected, b1) \<Rightarrow> (Inl FetchRejected, state, b1)
         | (Response ok body, b1) \<Rightarrow>
             (case body of
                None \<Rightarrow> (Inl BadBody, state, b1)
              | Some libs \<Rightarrow>
                  (case fetch_documents_all gw libs b1 of
                     (Inl e, b2) \<Rightarrow> (Inl e, state, b2)
                   | (Inr libs', b2) \<Rightarrow>
                       fetchAllConversations gw (set_libraries libs' state, b2)))))"

section \<open>Notions of the specification and example data\<close>

text \<open>
  The document collection of a library id: the documents of the libraries with that id,
  in the order of the store.
\<close>

definition documents_of :: "string \<Rightarrow> LibraryStore \<Rightarrow> PDFDocument list" where
  "documents_of libraryId state =
     concat (map lib_documents (filter (\<lambda>lib. lib_id lib = libraryId) (libraries state)))"

text \<open>Small values on which the properties below are evaluated.\<close>

definition demo_document :: "string \<Rightarrow> PDFDocument" where
  "demo_document i =
     \<lparr>doc_id = i, doc_name = ''notes.pdf'', doc_file = None,
      doc_uploadDate = NewDate ''2024-01-01'', doc_tags = Some [], doc_chunks = [],
      doc_embeddings = None\<rparr>"

definition demo_library :: "string \<Rightarrow> PDFDocument list \<Rightarrow> Library" where
  "demo_library i docs =
     \<lparr>lib_id = i, lib_name = ''Physics'', lib_description = None, lib_documents = docs,
      lib_createdAt = NewDate ''2024-01-01'', lib_tags = Some []\<rparr>"

definition demo_conversation :: "string \<Rightarrow> string \<Rightarrow> string \<Rightarrow> Conversation" where
  "demo_conversation i l t =
     \<lparr>conv_id = i, conv_libraryId = l, conv_title = t, conv_messages = [],
      conv_createdAt = NewDate ''2024-01-01'', conv_updatedAt = NewDate ''2024-01-02''\<rparr>"

text \<open>
  A stored snapshot with a library whose id is no UUID, a conversation with a local id, a
  conversation with a UUID in mixed case and one whose id is a UUID followed by a line
  break.
\<close>

definition demo_snapshot :: PersistedState where
  "demo_snapshot =
     \<lparr>p_libraries = Some [demo_library ''local-7'' []],
      p_conversations = Some
        [demo_conversation ''local-42'' ''local-7'' ''Old chat'',
         demo_conversation ''123e4567-E89B-12d3-a456-426614174000'' ''local-7'' ''Chat A'',
         demo_conversation (''123e4567-e89b-12d3-a456-426614174000'' @ [CHR 0x0A]) ''local-7''
           ''Chat B'']\<rparr>"

text \<open>
  The responses the backend gives to the "list conversations for library" calls of one
  \<^verbatim>\<open>fetchAllConversations\<close>, one per library in list order. A sub-fetch fails when
  the backend reports non-success (\<^verbatim>\<open>res.ok\<close> is false); it succeeds when the response is
  \<^verbatim>\<open>ok\<close> and carries the list of conversations. \<open>contributed\<close> is what the
  specification lets a response add to the result.
\<close>

fun sub_fetches ::
  "'b RemoteGateway \<Rightarrow> Library list \<Rightarrow> 'b \<Rightarrow> raw_conversation list Response list" where
  "sub_fetches gw [] b = []"
| "sub_fetches gw (lib # libs) b =
     (case get_conversations gw (lib_id lib) b of (r, b') \<Rightarrow> r # sub_fetches gw libs b')"

fun sub_fetch_fails :: "'a Response \<Rightarrow> bool" where
  "sub_fetch_fails (Response ok body) = (\<not> ok)"
| "sub_fetch_fails Rejected = False"

fun sub_fetch_succeeds :: "'a Response \<Rightarrow> bool" where
  "sub_fetch_succeeds (Response ok body) = (ok \<and> body \<noteq> None)"
| "sub_fetch_succeeds Rejected = False"

fun contributed :: "raw_conversation list Response \<Rightarrow> Conversation list" where
  "contributed (Response ok (Some convs)) =
     (if ok then map conversation_of_raw convs else [])"
| "contributed (Response ok None) = []"
| "contributed Rejected = []"

text \<open>The predicate of the lookup in \<^verbatim>\<open>createConversation\<close>.\<close>

definition matches :: "string \<Rightarrow> string \<Rightarrow> Conversation \<Rightarrow> bool" where
  "matches libraryId title c = (conv_libraryId c = libraryId \<and> conv_title c = title)"

text \<open>
  An example backend. Its state is the log of the requests it has received. Library \<open>L3\<close>
  cannot list its conversations, library \<open>L9\<close> accepts no new conversation, and the
  conversation \<open>c-gone\<close> is unknown. Every other library lists two conversations with
  the same title.
\<close>

definition demo_raw_conversation :: "string \<Rightarrow> string \<Rightarrow> string \<Rightarrow> raw_conversation" where
  "demo_raw_conversation i l t =
     \<lparr>rc_id = i, rc_library_id = l, rc_title = t, rc_messages = [],
      rc_created_at = ''2024-01-01'', rc_updated_at = ''2024-01-02''\<rparr>"

definition demo_raw_library :: "string \<Rightarrow> raw_library" where
  "demo_raw_library i =
     \<lparr>rl_id = i, rl_name = ''Physics'', rl_description = None,
      rl_created_at = ''2024-01-01'', rl_tags = None\<rparr>"

definition demo_gateway :: "string list RemoteGateway" where
  "demo_gateway =
     \<lparr>get_libraries = (\<lambda>b.
        (Response True (Some [demo_raw_library ''L1'', demo_raw_library ''L2'']),
         b @ [''GET /libraries''])),
      get_documents = (\<lambda>l b.
        (Response True (Some []), b @ [''GET /libraries/'' @ l @ ''/documents''])),
      get_conversations = (\<lambda>l b.
        (if l = ''L3'' then Response False None
         else Response True (Some [demo_raw_conversation (''c-'' @ l) l ''Chat A'',
                                   demo_raw_conversation (''d-'' @ l) l ''Chat A'']),
         b @ [''GET /libraries/'' @ l @ ''/conversations''])),
      post_conversation = (\<lambda>l t b.
        (if l = ''L9'' then Response False None else Response True (Some ()),
         b @ [''POST /libraries/'' @ l @ ''/conversations''])),
      get_conversation = (\<lambda>i b.
        (if i = ''c-gone'' then Response False None
         else Response True (Some (demo_raw_conversation i ''L1'' ''Chat A'')),
         b @ [''GET /libraries/conversations/'' @ i])),
      post_message = (\<lambda>i m b.
        (if i = ''c-gone'' then Response False None else Response True (Some ()),
         b @ [''POST /libraries/conversations/'' @ i @ ''/messages'']))\<rparr>"

definition demo_message :: ChatMessage where
  "demo_message =
     \<lparr>msg_id = ''m1'', msg_content = ''What is entropy?'', msg_role = User,
      msg_timestamp = NewDate ''2024-01-03'', msg_sources = None\<rparr>"

section \<open>Properties\<close>

subsection \<open>Persistence\<close>

text \<open>
  C8. For every store state, the record that \<^verbatim>\<open>partialize\<close> hands to the storage holds the
  \<^verbatim>\<open>libraries\<close> and the \<^verbatim>\<open>conversations\<close> of the state and nothing else (its extension is
  empty); it does not depend on \<^verbatim>\<open>currentLibrary\<close> or \<^verbatim>\<open>currentConversation\<close>.
\<close>

theorem partialize_projection:
  "p_libraries (partialize state) = Some (libraries state) \<and>
   p_conversations (partialize state) = Some (conversations state) \<and>
   PersistedState.more (partialize state) = () \<and>
   partialize (state\<lparr>currentLibrary := cl, currentConversation := cc\<rparr>) = partialize state"
  by (simp add: partialize_def)

subsection \<open>Documents\<close>

lemma filter_fresh_id:
  "i \<notin> doc_id ` set docs \<Longrightarrow> filter (\<lambda>doc. doc_id doc \<noteq> i) docs = docs"
  by (induction docs) auto

lemma documents_of_member:
  "lib \<in> set (libraries state) \<Longrightarrow> lib_id lib = libraryId \<Longrightarrow>
     set (lib_documents lib) \<subseteq> set (documents_of libraryId state)"
  by (auto simp: documents_of_def)

text \<open>
  C7, as stated, fails: when the library already holds a document with the identity of
  \<open>d\<close>, \<^verbatim>\<open>removeDocument\<close> filters out both the old and the new one. Library \<open>L1\<close> holds
  the document \<open>d1\<close>; after adding a document \<open>d1\<close> and removing \<open>d1\<close> it holds none.
\<close>

theorem add_then_remove_document_counterexample:
  "set (map doc_id (documents_of ''L1''
      (fst (removeDocument ''L1'' ''d1''
         (addDocument ''L1'' (demo_document ''d1'')
            (initial_store\<lparr>libraries := [demo_library ''L1'' [demo_document ''d1'']]\<rparr>, ()))))))
   \<noteq> set (map doc_id (documents_of ''L1''
        (initial_store\<lparr>libraries := [demo_library ''L1'' [demo_document ''d1'']]\<rparr>)))"
  by (simp add: removeDocument_def addDocument_def documents_of_def initial_store_def
      demo_library_def demo_document_def)

text \<open>
  C7, amended. For every store state, library id \<open>libId\<close> and document \<open>d\<close> whose identity
  is not yet among the documents of \<open>libId\<close>, \<^verbatim>\<open>addDocument(libId, d)\<close> followed by
  \<^verbatim>\<open>removeDocument(libId, d.id)\<close> gives back the store as it was, so the documents of
  \<open>libId\<close> have the identities they had before; neither operation touches the backend.
\<close>

theorem add_then_remove_fresh_document:
  assumes "doc_id d \<notin> set (map doc_id (documents_of libId state))"
  shows "removeDocument libId (doc_id d) (addDocument libId d (state, b)) = (state, b) \<and>
         set (map doc_id (documents_of libId
            (fst (removeDocument libId (doc_id d) (addDocument libId d (state, b))))))
           = set (map doc_id (documents_of libId state)) \<and>
         snd (addDocument libId d (state, b)) = b \<and>
         snd (removeDocument libId (doc_id d) (state, b)) = b"
proof -
  have fresh: "doc_id d \<notin> doc_id ` set (lib_documents lib)"
    if "lib \<in> set (libraries state)" "lib_id lib = libId" for lib
    using documents_of_member [OF that] assms by auto
  have "map ((\<lambda>lib. if lib_id lib = libId
                 then lib\<lparr>lib_documents :=
                        filter (\<lambda>doc. doc_id doc \<noteq> doc_id d) (lib_documents lib)\<rparr>
                 else lib) \<circ>
            (\<lambda>lib. if lib_id lib = libId
                 then lib\<lparr>lib_documents := lib_documents lib @ [d]\<rparr> else lib))
          (libraries state) = libraries state"
    by (rule map_idI) (simp add: filter_fresh_id fresh)
  then have "removeDocument libId (doc_id d) (addDocument libId d (state, b)) = (state, b)"
    by (simp add: removeDocument_def addDocument_def)
  then show ?thesis
    by (simp add: removeDocument_def addDocument_def)
qed

theorem add_then_remove_fresh_document_witness:
  "removeDocument ''L1'' ''d2''
     (addDocument ''L1'' (demo_document ''d2'')
        (initial_store\<lparr>libraries := [demo_library ''L1'' [demo_document ''d1'']]\<rparr>,
         [''GET /libraries'']))
   = (initial_store\<lparr>libraries := [demo_library ''L1'' [demo_document ''d1'']]\<rparr>,
      [''GET /libraries''])"
  using add_then_remove_fresh_document
    [of "demo_document ''d2''" "''L1''"
        "initial_store\<lparr>libraries := [demo_library ''L1'' [demo_document ''d1'']]\<rparr>"
        "[''GET /libraries'']"]
  by (simp add: documents_of_def initial_store_def demo_library_def demo_document_def)

subsection \<open>Migration\<close>

lemma char_eq_code: "(c = d) = ((of_char c :: nat) = of_char d)"
  by auto

lemma hex_matches: "char_matches hex = is_hex_digit"
proof
  fix c
  have "is_hex_digit c = ((of_char c :: nat) \<in> {48..57} \<union> {97..102} \<union> {65..70})"
    unfolding is_hex_digit_def by (simp add: char_eq_code [of c]) arith
  moreover
  have "char_matches hex c = ((of_char c :: nat) \<in> {48..57} \<union> {97..102} \<union> {65..70})"
    by (simp add: hex_def canonicalize_def) arith
  ultimately show "char_matches hex c = is_hex_digit c"
    by simp
qed

lemma dash_matches: "char_matches (Lit CHR ''-'') c = (c = CHR ''-'')"
  by (auto simp: char_eq_code [of c] canonicalize_def)

lemma match_atoms_replicate:
  "match_atoms (replicate n a @ as) s =
     (n \<le> length s \<and> list_all (char_matches a) (take n s) \<and> match_atoms as (drop n s))"
proof (induction n arbitrary: s)
  case 0
  show ?case by simp
next
  case (Suc n)
  show ?case by (cases s) (auto simp: Suc.IH)
qed

lemma match_atoms_Cons:
  "match_atoms (a # as) s =
     (1 \<le> length s \<and> char_matches a (s ! 0) \<and> match_atoms as (drop 1 s))"
  by (cases s) auto

lemma match_atoms_length: "match_atoms as s \<Longrightarrow> length s = length as"
  by (induction as s rule: match_atoms.induct) auto

text \<open>The regular expression of the code accepts exactly the strings of the pattern.\<close>

lemma uuidRegex_pattern: "regex_test uuidRegex s = uuid_pattern s"
proof (cases "length s = 36")
  case True
  then show ?thesis
    unfolding regex_test_def uuidRegex_def uuid_pattern_def
    by (simp add: match_atoms_replicate [where as = "x # xs" for x xs]
        match_atoms_replicate [where as = "[]", simplified]
        match_atoms_Cons hex_matches dash_matches
        del: match_atoms.simps char_matches.simps)
next
  case False
  have "regex_test uuidRegex s \<Longrightarrow> length s = 36"
    unfolding regex_test_def uuidRegex_def by (drule match_atoms_length) simp
  with False have "\<not> regex_test uuidRegex s"
    by blast
  moreover from False have "\<not> uuid_pattern s"
    by (simp add: uuid_pattern_def)
  ultimately show ?thesis
    by simp
qed

text \<open>
  C2. For every stored snapshot, \<^verbatim>\<open>migrate\<close> keeps the conversations whose id matches
  the pattern \<^verbatim>\<open>^[0-9a-f]{8}-[0-9a-f]{4}-[0-9a-f]{4}-[0-9a-f]{4}-[0-9a-f]{12}$\<close> without regard
  to case, in their order, and removes exactly the others; the libraries and every other
  field of the snapshot are as they were.
\<close>

theorem migrate_drops_non_uuid_conversations:
  "p_conversations (migrate snapshot version) =
     Some (filter (\<lambda>conv. uuid_pattern (conv_id conv))
             (case p_conversations snapshot of None \<Rightarrow> [] | Some cs \<Rightarrow> cs)) \<and>
   p_libraries (migrate snapshot version) = p_libraries snapshot \<and>
   PersistedState.more (migrate snapshot version) = PersistedState.more snapshot"
  by (simp add: migrate_def uuidRegex_pattern)

theorem migrate_drops_non_uuid_conversations_witness:
  "p_conversations (migrate demo_snapshot 0) =
     Some [demo_conversation ''123e4567-E89B-12d3-a456-426614174000'' ''local-7'' ''Chat A''] \<and>
   p_libraries (migrate demo_snapshot 0) = Some [demo_library ''local-7'' []]"
  using migrate_drops_non_uuid_conversations [of demo_snapshot 0]
  by (simp add: demo_snapshot_def uuid_pattern_def is_hex_digit_def demo_conversation_def)

subsection \<open>Refreshing the conversations\<close>

lemma conversation_of_demo_raw [simp]:
  "conversation_of_raw (demo_raw_conversation i l t) = demo_conversation i l t"
  by (simp add: conversation_of_raw_def demo_raw_conversation_def demo_conversation_def)

lemma fetch_conversations_loop_tolerant:
  "\<forall>r \<in> set (sub_fetches gw libs b). sub_fetch_fails r \<or> sub_fetch_succeeds r \<Longrightarrow>
     \<exists>b'. fetch_conversations_loop gw libs acc b =
            (Inr (acc @ concat (map contributed (sub_fetches gw libs b))), b')"
proof (induction libs arbitrary: acc b)
  case Nil
  show ?case by simp
next
  case (Cons lib libs)
  obtain r b1 where call: "get_conversations gw (lib_id lib) b = (r, b1)"
    by (cases "get_conversations gw (lib_id lib) b")
  from Cons.prems call have here: "sub_fetch_fails r \<or> sub_fetch_succeeds r"
    and rest: "\<forall>r \<in> set (sub_fetches gw libs b1). sub_fetch_fails r \<or> sub_fetch_succeeds r"
    by simp_all
  show ?case
  proof (cases r)
    case Rejected
    with here show ?thesis by simp
  next
    case (Response ok body)
    show ?thesis
    proof (cases ok)
      case False
      with Response call Cons.IH [OF rest, of acc] show ?thesis
        by (cases body) auto
    next
      case True
      with here Response obtain convs where body: "body = Some convs"
        by auto
      from Cons.IH [OF rest, of "acc @ map conversation_of_raw convs"] True Response call body
      show ?thesis by auto
    qed
  qed
qed

text \<open>
  C3. For every list of known libraries and every backend whose answers to the
  per-library calls are each a failure (a response that is not \<^verbatim>\<open>ok\<close>) or a success,
  \<^verbatim>\<open>fetchAllConversations\<close> does not raise and replaces the conversation list with the
  conversations of the succeeding libraries, concatenated in library order; a failing
  sub-fetch contributes none.
\<close>

theorem fetchAllConversations_partial_failure:
  assumes "\<forall>r \<in> set (sub_fetches gw (libraries state) b).
             sub_fetch_fails r \<or> sub_fetch_succeeds r"
  shows "(\<exists>b'. fetchAllConversations gw (state, b) =
            (Inr (),
             state\<lparr>conversations :=
                     concat (map contributed (sub_fetches gw (libraries state) b))\<rparr>,
             b')) \<and>
         (\<forall>r. sub_fetch_fails r \<longrightarrow> contributed r = [])"
proof -
  from fetch_conversations_loop_tolerant [OF assms, of "[]"]
  obtain b' where "fetch_conversations_loop gw (libraries state) [] b =
      (Inr (concat (map contributed (sub_fetches gw (libraries state) b))), b')"
    by auto
  then have "fetchAllConversations gw (state, b) =
      (Inr (),
       state\<lparr>conversations := concat (map contributed (sub_fetches gw (libraries state) b))\<rparr>,
       b')"
    by (simp add: fetchAllConversations_def)
  moreover have "contributed r = []" if "sub_fetch_fails r" for r
    using that by (cases r rule: contributed.cases) auto
  ultimately show ?thesis by blast
qed

theorem fetchAllConversations_partial_failure_witness:
  "fst (fetchAllConversations demo_gateway
      (initial_store\<lparr>libraries :=
         map (\<lambda>i. demo_library i []) [''L1'', ''L2'', ''L3'', ''L4'', ''L5'']\<rparr>, [])) = Inr () \<and>
   map conv_id (conversations (fst (snd (fetchAllConversations demo_gateway
      (initial_store\<lparr>libraries :=
         map (\<lambda>i. demo_library i []) [''L1'', ''L2'', ''L3'', ''L4'', ''L5'']\<rparr>, [])))))
     = [''c-L1'', ''d-L1'', ''c-L2'', ''d-L2'', ''c-L4'', ''d-L4'', ''c-L5'', ''d-L5'']"
  using fetchAllConversations_partial_failure
    [of demo_gateway
        "initial_store\<lparr>libraries :=
           map (\<lambda>i. demo_library i []) [''L1'', ''L2'', ''L3'', ''L4'', ''L5'']\<rparr>" "[]"]
  by (auto simp: initial_store_def demo_library_def demo_gateway_def demo_conversation_def)

text \<open>
  The tolerance is for responses: when \<^verbatim>\<open>fetch\<close> itself rejects, nothing catches it.
\<close>

lemma fetchAllConversations_rejected:
  assumes "get_conversations gw (lib_id lib) b = (Rejected, b')"
      and "libraries state = lib # libs"
  shows "fetchAllConversations gw (state, b) = (Inl FetchRejected, state, b')"
  using assms by (simp add: fetchAllConversations_def)

subsection \<open>Fetching one conversation\<close>

lemma spread_conversation_eq [simp]: "spread_conversation c conv = conv"
  by (simp add: spread_conversation_def)

lemma fetchConversation_ok:
  assumes "get_conversation gw cid b = (Response True (Some raw), b')"
  shows "fetchConversation gw cid (state, b) =
           (Inr (conversation_of_raw raw),
            state\<lparr>conversations :=
                    map (\<lambda>c. if conv_id c = cid then conversation_of_raw raw else c)
                        (conversations state),
                  currentConversation := Some (conversation_of_raw raw)\<rparr>,
            b')"
  using assms by (simp add: fetchConversation_def Let_def)

lemma fetchConversation_not_ok:
  assumes "get_conversation gw cid b = (Response False body, b')"
  shows "fetchConversation gw cid (state, b) =
           (Inl (Error ''Failed to fetch conversation''), state, b')"
  using assms by (simp add: fetchConversation_def)

text \<open>
  C5. For every conversation id, \<^verbatim>\<open>fetchConversation\<close> raises when the backend reports
  non-success and leaves the store as it was. On success it returns the fetched
  conversation and makes it the current one; the conversation list keeps its length and
  its order, the entries with the requested id are replaced by the fetched conversation
  and every other entry is untouched, so the ids in the list are the same as before when
  the fetched conversation carries the requested id.
\<close>

theorem fetchConversation_merges_by_id:
  "(get_conversation gw cid b = (Response False body, b') \<longrightarrow>
      fetchConversation gw cid (state, b) =
        (Inl (Error ''Failed to fetch conversation''), state, b')) \<and>
   (get_conversation gw cid b = (Response True (Some raw), b') \<longrightarrow>
      (\<exists>state'. fetchConversation gw cid (state, b) = (Inr (conversation_of_raw raw), state', b') \<and>
         currentConversation state' = Some (conversation_of_raw raw) \<and>
         length (conversations state') = length (conversations state) \<and>
         (\<forall>i < length (conversations state).
            conversations state' ! i =
              (if conv_id (conversations state ! i) = cid then conversation_of_raw raw
               else conversations state ! i)) \<and>
         (rc_id raw = cid \<longrightarrow>
            map conv_id (conversations state') = map conv_id (conversations state)) \<and>
         libraries state' = libraries state \<and> currentLibrary state' = currentLibrary state))"
proof (intro conjI impI)
  assume "get_conversation gw cid b = (Response False body, b')"
  then show "fetchConversation gw cid (state, b) =
      (Inl (Error ''Failed to fetch conversation''), state, b')"
    by (rule fetchConversation_not_ok)
next
  assume ok: "get_conversation gw cid b = (Response True (Some raw), b')"
  let ?conv = "conversation_of_raw raw"
  let ?state' = "state\<lparr>conversations :=
                    map (\<lambda>c. if conv_id c = cid then ?conv else c) (conversations state),
                  currentConversation := Some ?conv\<rparr>"
  have ids: "map conv_id (conversations ?state') = map conv_id (conversations state)"
    if "rc_id raw = cid"
    using that by (simp add: conversation_of_raw_def comp_def cong: map_cong)
  have "fetchConversation gw cid (state, b) = (Inr ?conv, ?state', b')"
    using ok by (rule fetchConversation_ok)
  moreover have "currentConversation ?state' = Some ?conv"
    by simp
  moreover have "length (conversations ?state') = length (conversations state)"
    by simp
  moreover have "\<forall>i < length (conversations state).
      conversations ?state' ! i =
        (if conv_id (conversations state ! i) = cid then ?conv else conversations state ! i)"
    by simp
  moreover have "libraries ?state' = libraries state \<and> currentLibrary ?state' = currentLibrary state"
    by simp
  ultimately show "\<exists>state'. fetchConversation gw cid (state, b) = (Inr ?conv, state', b') \<and>
         currentConversation state' = Some ?conv \<and>
         length (conversations state') = length (conversations state) \<and>
         (\<forall>i < length (conversations state).
            conversations state' ! i =
              (if conv_id (conversations state ! i) = cid then ?conv
               else conversations state ! i)) \<and>
         (rc_id raw = cid \<longrightarrow>
            map conv_id (conversations state') = map conv_id (conversations state)) \<and>
         libraries state' = libraries state \<and> currentLibrary state' = currentLibrary state"
    using ids by blast
qed

theorem fetchConversation_merges_by_id_witness:
  "fetchConversation demo_gateway ''c-gone''
     (initial_store\<lparr>conversations := [demo_conversation ''c-gone'' ''L1'' ''Chat A'']\<rparr>, [])
   = (Inl (Error ''Failed to fetch conversation''),
      initial_store\<lparr>conversations := [demo_conversation ''c-gone'' ''L1'' ''Chat A'']\<rparr>,
      [''GET /libraries/conversations/c-gone'']) \<and>
   (\<exists>state'. fetchConversation demo_gateway ''c2''
       (initial_store\<lparr>conversations :=
          [demo_conversation ''c1'' ''L1'' ''One'', demo_conversation ''c2'' ''L1'' ''Two'',
           demo_conversation ''c3'' ''L2'' ''Three'']\<rparr>, [])
      = (Inr (demo_conversation ''c2'' ''L1'' ''Chat A''), state',
         [''GET /libraries/conversations/c2'']) \<and>
      length (conversations state') = 3 \<and>
      conversations state' ! 0 = demo_conversation ''c1'' ''L1'' ''One'' \<and>
      conversations state' ! 1 = demo_conversation ''c2'' ''L1'' ''Chat A'' \<and>
      conversations state' ! 2 = demo_conversation ''c3'' ''L2'' ''Three'' \<and>
      currentConversation state' = Some (demo_conversation ''c2'' ''L1'' ''Chat A''))"
proof -
  have no: "get_conversation demo_gateway ''c-gone'' [] =
      (Response False None, [''GET /libraries/conversations/c-gone''])"
    by (simp add: demo_gateway_def)
  have yes: "get_conversation demo_gateway ''c2'' [] =
      (Response True (Some (demo_raw_conversation ''c2'' ''L1'' ''Chat A'')),
       [''GET /libraries/conversations/c2''])"
    by (simp add: demo_gateway_def)
  let ?s = "initial_store\<lparr>conversations :=
          [demo_conversation ''c1'' ''L1'' ''One'', demo_conversation ''c2'' ''L1'' ''Two'',
           demo_conversation ''c3'' ''L2'' ''Three'']\<rparr>"
  from fetchConversation_merges_by_id
    [of demo_gateway "''c-gone''" "[]" None "[''GET /libraries/conversations/c-gone'']"
        "initial_store\<lparr>conversations := [demo_conversation ''c-gone'' ''L1'' ''Chat A'']\<rparr>"]
    no
  have first: "fetchConversation demo_gateway ''c-gone''
     (initial_store\<lparr>conversations := [demo_conversation ''c-gone'' ''L1'' ''Chat A'']\<rparr>, [])
   = (Inl (Error ''Failed to fetch conversation''),
      initial_store\<lparr>conversations := [demo_conversation ''c-gone'' ''L1'' ''Chat A'']\<rparr>,
      [''GET /libraries/conversations/c-gone''])"
    by blast
  from fetchConversation_merges_by_id
    [of demo_gateway "''c2''" "[]" _ "[''GET /libraries/conversations/c2'']" ?s
        "demo_raw_conversation ''c2'' ''L1'' ''Chat A''"] yes
  obtain state' where
    run: "fetchConversation demo_gateway ''c2'' (?s, []) =
      (Inr (demo_conversation ''c2'' ''L1'' ''Chat A''), state',
       [''GET /libraries/conversations/c2''])"
    and cur: "currentConversation state' = Some (demo_conversation ''c2'' ''L1'' ''Chat A'')"
    and len: "length (conversations state') = length (conversations ?s)"
    and at: "\<forall>i < length (conversations ?s).
            conversations state' ! i =
              (if conv_id (conversations ?s ! i) = ''c2''
               then demo_conversation ''c2'' ''L1'' ''Chat A''
               else conversations ?s ! i)"
    by auto
  from len have "length (conversations state') = 3"
    by simp
  moreover from at [rule_format, of 0]
  have "conversations state' ! 0 = demo_conversation ''c1'' ''L1'' ''One''"
    by (simp add: demo_conversation_def)
  moreover from at [rule_format, of 1]
  have "conversations state' ! 1 = demo_conversation ''c2'' ''L1'' ''Chat A''"
    by (simp add: demo_conversation_def)
  moreover from at [rule_format, of 2]
  have "conversations state' ! 2 = demo_conversation ''c3'' ''L2'' ''Three''"
    by (simp add: demo_conversation_def)
  ultimately show ?thesis
    using first run cur by blast
qed

lemma map_absent_id:
  "cid \<notin> set (map conv_id cs) \<Longrightarrow> map (\<lambda>c. if conv_id c = cid then x else c) cs = cs"
  by (induction cs) auto

text \<open>
  C10. When no conversation of the local list has the requested id, a successful
  \<^verbatim>\<open>fetchConversation\<close> leaves the list as it is (the fetched conversation is not
  inserted) and still makes the fetched conversation the current one; when that
  conversation carries the requested id, the current conversation is therefore no element
  of the list.
\<close>

theorem fetchConversation_absent_id:
  assumes "cid \<notin> set (map conv_id (conversations state))"
      and "get_conversation gw cid b = (Response True (Some raw), b')"
  shows "\<exists>state'. fetchConversation gw cid (state, b) = (Inr (conversation_of_raw raw), state', b') \<and>
           conversations state' = conversations state \<and>
           currentConversation state' = Some (conversation_of_raw raw) \<and>
           (rc_id raw = cid \<longrightarrow> conversation_of_raw raw \<notin> set (conversations state'))"
proof -
  let ?conv = "conversation_of_raw raw"
  have "fetchConversation gw cid (state, b) =
      (Inr ?conv, state\<lparr>currentConversation := Some ?conv\<rparr>, b')"
    using assms by (simp add: fetchConversation_ok map_absent_id)
  moreover have "?conv \<notin> set (conversations state)" if "rc_id raw = cid"
  proof
    assume "?conv \<in> set (conversations state)"
    then have "conv_id ?conv \<in> set (map conv_id (conversations state))"
      by auto
    with that assms(1) show False
      by (simp add: conversation_of_raw_def)
  qed
  ultimately show ?thesis by simp
qed

theorem fetchConversation_absent_id_witness:
  "\<exists>state'. fetchConversation demo_gateway ''c9''
       (initial_store\<lparr>conversations := [demo_conversation ''c1'' ''L1'' ''One'']\<rparr>, [])
      = (Inr (demo_conversation ''c9'' ''L1'' ''Chat A''), state',
         [''GET /libraries/conversations/c9'']) \<and>
      conversations state' = [demo_conversation ''c1'' ''L1'' ''One''] \<and>
      currentConversation state' = Some (demo_conversation ''c9'' ''L1'' ''Chat A'') \<and>
      demo_conversation ''c9'' ''L1'' ''Chat A'' \<notin> set (conversations state')"
proof -
  let ?s = "initial_store\<lparr>conversations := [demo_conversation ''c1'' ''L1'' ''One'']\<rparr>"
  have absent: "''c9'' \<notin> set (map conv_id (conversations ?s))"
    by (simp add: demo_conversation_def)
  have call: "get_conversation demo_gateway ''c9'' [] =
      (Response True (Some (demo_raw_conversation ''c9'' ''L1'' ''Chat A'')),
       [''GET /libraries/conversations/c9''])"
    by (simp add: demo_gateway_def)
  have same: "rc_id (demo_raw_conversation ''c9'' ''L1'' ''Chat A'') = ''c9''"
    by (simp add: demo_raw_conversation_def)
  from fetchConversation_absent_id [OF absent call] same show ?thesis
    by simp
qed

subsection \<open>Appending a message\<close>

text \<open>
  C6. For every conversation id and message, \<^verbatim>\<open>addMessage\<close> raises and leaves the store
  as it was when the call that appends the message does not succeed (the request is
  rejected, or the response is not \<^verbatim>\<open>ok\<close>). When it succeeds, the rest is
  \<^verbatim>\<open>fetchConversation\<close> of the same id: same store, same backend state, same error if
  it raises; and when that fetch succeeds, the fetched conversation replaces the entries
  with its id in the list and becomes the current conversation.
\<close>

theorem addMessage_saves_then_refetches:
  "(post_message gw cid message b = (Rejected, b') \<longrightarrow>
      addMessage gw cid message (state, b) = (Inl FetchRejected, state, b')) \<and>
   (post_message gw cid message b = (Response False body, b') \<longrightarrow>
      addMessage gw cid message (state, b) = (Inl (Error ''Failed to save message''), state, b')) \<and>
   (post_message gw cid message b = (Response True body, b') \<longrightarrow>
      snd (addMessage gw cid message (state, b)) = snd (fetchConversation gw cid (state, b')) \<and>
      fst (addMessage gw cid message (state, b)) =
        map_sum id (\<lambda>conv. ()) (fst (fetchConversation gw cid (state, b')))) \<and>
   (post_message gw cid message b = (Response True body, b') \<and>
    get_conversation gw cid b' = (Response True (Some raw), b'') \<longrightarrow>
      addMessage gw cid message (state, b) =
        (Inr (),
         state\<lparr>conversations :=
                 map (\<lambda>c. if conv_id c = cid then conversation_of_raw raw else c)
                     (conversations state),
               currentConversation := Some (conversation_of_raw raw)\<rparr>,
         b''))"
  by (auto simp: addMessage_def fetchConversation_ok split: prod.splits sum.splits)

theorem addMessage_saves_then_refetches_witness:
  "addMessage demo_gateway ''c-gone'' demo_message
      (initial_store\<lparr>conversations := [demo_conversation ''c-gone'' ''L1'' ''Old'']\<rparr>, [])
    = (Inl (Error ''Failed to save message''),
       initial_store\<lparr>conversations := [demo_conversation ''c-gone'' ''L1'' ''Old'']\<rparr>,
       [''POST /libraries/conversations/c-gone/messages'']) \<and>
   addMessage demo_gateway ''c2'' demo_message
      (initial_store\<lparr>conversations :=
         [demo_conversation ''c1'' ''L1'' ''One'', demo_conversation ''c2'' ''L1'' ''Two'']\<rparr>, [])
    = (Inr (),
       initial_store\<lparr>conversations :=
           [demo_conversation ''c1'' ''L1'' ''One'', demo_conversation ''c2'' ''L1'' ''Chat A''],
         currentConversation := Some (demo_conversation ''c2'' ''L1'' ''Chat A'')\<rparr>,
       [''POST /libraries/conversations/c2/messages'', ''GET /libraries/conversations/c2''])"
proof -
  have refused: "post_message demo_gateway ''c-gone'' demo_message [] =
      (Response False None, [''POST /libraries/conversations/c-gone/messages''])"
    by (simp add: demo_gateway_def)
  have saved: "post_message demo_gateway ''c2'' demo_message [] =
      (Response True (Some ()), [''POST /libraries/conversations/c2/messages''])"
    by (simp add: demo_gateway_def)
  have fetched: "get_conversation demo_gateway ''c2''
        [''POST /libraries/conversations/c2/messages''] =
      (Response True (Some (demo_raw_conversation ''c2'' ''L1'' ''Chat A'')),
       [''POST /libraries/conversations/c2/messages'', ''GET /libraries/conversations/c2''])"
    by (simp add: demo_gateway_def)
  from addMessage_saves_then_refetches
      [where gw = demo_gateway and cid = "''c-gone''" and message = demo_message and b = "[]"
         and state = "initial_store\<lparr>conversations :=
                        [demo_conversation ''c-gone'' ''L1'' ''Old'']\<rparr>"
         and body = None and b' = "[''POST /libraries/conversations/c-gone/messages'']"]
    refused
  have one: "addMessage demo_gateway ''c-gone'' demo_message
      (initial_store\<lparr>conversations := [demo_conversation ''c-gone'' ''L1'' ''Old'']\<rparr>, [])
    = (Inl (Error ''Failed to save message''),
       initial_store\<lparr>conversations := [demo_conversation ''c-gone'' ''L1'' ''Old'']\<rparr>,
       [''POST /libraries/conversations/c-gone/messages''])"
    by blast
  from addMessage_saves_then_refetches
      [where gw = demo_gateway and cid = "''c2''" and message = demo_message and b = "[]"
         and state = "initial_store\<lparr>conversations :=
             [demo_conversation ''c1'' ''L1'' ''One'', demo_conversation ''c2'' ''L1'' ''Two'']\<rparr>"
         and body = "Some ()" and b' = "[''POST /libraries/conversations/c2/messages'']"
         and raw = "demo_raw_conversation ''c2'' ''L1'' ''Chat A''"
         and b'' = "[''POST /libraries/conversations/c2/messages'',
                     ''GET /libraries/conversations/c2'']"]
    saved fetched
  have two: "addMessage demo_gateway ''c2'' demo_message
      (initial_store\<lparr>conversations :=
         [demo_conversation ''c1'' ''L1'' ''One'', demo_conversation ''c2'' ''L1'' ''Two'']\<rparr>, [])
    = (Inr (),
       initial_store\<lparr>conversations :=
           [demo_conversation ''c1'' ''L1'' ''One'', demo_conversation ''c2'' ''L1'' ''Chat A''],
         currentConversation := Some (demo_conversation ''c2'' ''L1'' ''Chat A'')\<rparr>,
       [''POST /libraries/conversations/c2/messages'', ''GET /libraries/conversations/c2''])"
    by (simp add: demo_conversation_def)
  from one two show ?thesis ..
qed

subsection \<open>Creating a conversation\<close>

lemma find_first_match:
  "i < length xs \<Longrightarrow> P (xs ! i) \<Longrightarrow> \<forall>j < i. \<not> P (xs ! j) \<Longrightarrow> find P xs = Some (xs ! i)"
proof (induction xs arbitrary: i)
  case Nil
  then show ?case by simp
next
  case (Cons x xs)
  show ?case
  proof (cases i)
    case 0
    with Cons.prems show ?thesis by simp
  next
    case (Suc k)
    with Cons.prems have "\<not> P x"
      by auto
    moreover from Suc Cons.prems have "find P xs = Some (xs ! k)"
      by (intro Cons.IH) auto
    ultimately show ?thesis
      using Suc by simp
  qed
qed

text \<open>
  C4. For every library id and title, \<^verbatim>\<open>createConversation\<close> raises when the backend
  reports non-success for the create call, and the store is then as it was. When the
  create call succeeds and the refresh of all conversations that follows returns, the
  store is the refreshed one and the value returned is the first conversation of the
  refreshed list, in list order, whose \<^verbatim>\<open>libraryId\<close> and \<^verbatim>\<open>title\<close> are the arguments.
\<close>

theorem createConversation_returns_first_match:
  "(post_conversation gw libraryId title b = (Response False body, b') \<longrightarrow>
      createConversation gw libraryId title (state, b) =
        (Inl (Error ''Failed to create conversation''), state, b')) \<and>
   (post_conversation gw libraryId title b = (Response True body, b') \<and>
    fetchAllConversations gw (state, b') = (Inr (), state', b'') \<longrightarrow>
      (\<exists>found. createConversation gw libraryId title (state, b) = (Inr found, state', b'') \<and>
         (\<forall>i < length (conversations state').
            matches libraryId title (conversations state' ! i) \<and>
            (\<forall>j < i. \<not> matches libraryId title (conversations state' ! j)) \<longrightarrow>
              found = Some (conversations state' ! i))))"
proof (intro conjI impI)
  assume "post_conversation gw libraryId title b = (Response False body, b')"
  then show "createConversation gw libraryId title (state, b) =
      (Inl (Error ''Failed to create conversation''), state, b')"
    by (simp add: createConversation_def)
next
  assume "post_conversation gw libraryId title b = (Response True body, b') \<and>
    fetchAllConversations gw (state, b') = (Inr (), state', b'')"
  then have "createConversation gw libraryId title (state, b) =
      (Inr (find (matches libraryId title) (conversations state')), state', b'')"
    by (simp add: createConversation_def matches_def [abs_def])
  then show "\<exists>found. createConversation gw libraryId title (state, b) = (Inr found, state', b'') \<and>
         (\<forall>i < length (conversations state').
            matches libraryId title (conversations state' ! i) \<and>
            (\<forall>j < i. \<not> matches libraryId title (conversations state' ! j)) \<longrightarrow>
              found = Some (conversations state' ! i))"
    by (auto intro: find_first_match)
qed

lemma demo_refresh:
  "fetchAllConversations demo_gateway
     (initial_store\<lparr>libraries := [demo_library ''L3'' [], demo_library ''L1'' []]\<rparr>, reqs) =
   (Inr (),
    initial_store\<lparr>libraries := [demo_library ''L3'' [], demo_library ''L1'' []],
      conversations := [demo_conversation ''c-L1'' ''L1'' ''Chat A'',
                        demo_conversation ''d-L1'' ''L1'' ''Chat A'']\<rparr>,
    reqs @ [''GET /libraries/L3/conversations'', ''GET /libraries/L1/conversations''])"
  by (simp add: fetchAllConversations_def demo_gateway_def demo_library_def initial_store_def)

theorem createConversation_returns_first_match_witness:
  "createConversation demo_gateway ''L9'' ''Chat A''
      (initial_store\<lparr>libraries := [demo_library ''L3'' [], demo_library ''L1'' []]\<rparr>, [])
    = (Inl (Error ''Failed to create conversation''),
       initial_store\<lparr>libraries := [demo_library ''L3'' [], demo_library ''L1'' []]\<rparr>,
       [''POST /libraries/L9/conversations'']) \<and>
   fst (createConversation demo_gateway ''L1'' ''Chat A''
      (initial_store\<lparr>libraries := [demo_library ''L3'' [], demo_library ''L1'' []]\<rparr>, []))
    = Inr (Some (demo_conversation ''c-L1'' ''L1'' ''Chat A''))"
proof -
  let ?s = "initial_store\<lparr>libraries := [demo_library ''L3'' [], demo_library ''L1'' []]\<rparr>"
  let ?s' = "initial_store\<lparr>libraries := [demo_library ''L3'' [], demo_library ''L1'' []],
      conversations := [demo_conversation ''c-L1'' ''L1'' ''Chat A'',
                        demo_conversation ''d-L1'' ''L1'' ''Chat A'']\<rparr>"
  have refused: "post_conversation demo_gateway ''L9'' ''Chat A'' [] =
      (Response False None, [''POST /libraries/L9/conversations''])"
    by (simp add: demo_gateway_def)
  have created: "post_conversation demo_gateway ''L1'' ''Chat A'' [] =
      (Response True (Some ()), [''POST /libraries/L1/conversations''])"
    by (simp add: demo_gateway_def)
  note refreshed = demo_refresh [of "[''POST /libraries/L1/conversations'']"]
  from createConversation_returns_first_match
      [where gw = demo_gateway and libraryId = "''L9''" and title = "''Chat A''" and b = "[]"
         and body = None and b' = "[''POST /libraries/L9/conversations'']" and state = ?s]
    refused
  have one: "createConversation demo_gateway ''L9'' ''Chat A'' (?s, []) =
      (Inl (Error ''Failed to create conversation''), ?s, [''POST /libraries/L9/conversations''])"
    by blast
  from createConversation_returns_first_match
      [where gw = demo_gateway and libraryId = "''L1''" and title = "''Chat A''" and b = "[]"
         and body = "Some ()" and b' = "[''POST /libraries/L1/conversations'']" and state = ?s
         and state' = ?s'
         and b'' = "[''POST /libraries/L1/conversations''] @
              [''GET /libraries/L3/conversations'', ''GET /libraries/L1/conversations'']"]
    created refreshed
  obtain found where
    run: "createConversation demo_gateway ''L1'' ''Chat A'' (?s, []) =
      (Inr found, ?s', [''POST /libraries/L1/conversations''] @
              [''GET /libraries/L3/conversations'', ''GET /libraries/L1/conversations''])"
    and first: "\<forall>i < length (conversations ?s').
            matches ''L1'' ''Chat A'' (conversations ?s' ! i) \<and>
            (\<forall>j < i. \<not> matches ''L1'' ''Chat A'' (conversations ?s' ! j)) \<longrightarrow>
              found = Some (conversations ?s' ! i)"
    by blast
  from first [rule_format, of 0] have "found = Some (demo_conversation ''c-L1'' ''L1'' ''Chat A'')"
    by (simp add: matches_def demo_conversation_def)
  with run one show ?thesis
    by simp
qed

text \<open>
  C9. For every library id and title there are runs of \<^verbatim>\<open>createConversation\<close> that do
  not raise and return \<^verbatim>\<open>undefined\<close>. This happens whenever the create call succeeds,
  the refresh returns, and no conversation of the refreshed list has the library id and
  the title of the call.
\<close>

theorem createConversation_may_return_undefined:
  "(\<exists>(gw0 :: unit RemoteGateway) state0 state1 b1.
      createConversation gw0 libraryId title (state0, ()) = (Inr None, state1, b1)) \<and>
   (post_conversation gw libraryId title b = (Response True body, b') \<and>
    fetchAllConversations gw (state, b') = (Inr (), state', b'') \<and>
    \<not> list_ex (matches libraryId title) (conversations state') \<longrightarrow>
      createConversation gw libraryId title (state, b) = (Inr None, state', b''))"
proof
  let ?gw = "\<lparr>get_libraries = (\<lambda>b. (Rejected, b)), get_documents = (\<lambda>l b. (Rejected, b)),
      get_conversations = (\<lambda>l b. (Rejected, b)),
      post_conversation = (\<lambda>l t b. (Response True (Some ()), b)),
      get_conversation = (\<lambda>i b. (Rejected, b)),
      post_message = (\<lambda>i m b. (Rejected, b))\<rparr> :: unit RemoteGateway"
  have "createConversation ?gw libraryId title (initial_store, ()) = (Inr None, initial_store, ())"
    by (simp add: createConversation_def fetchAllConversations_def initial_store_def)
  then show "\<exists>(gw0 :: unit RemoteGateway) state0 state1 b1.
      createConversation gw0 libraryId title (state0, ()) = (Inr None, state1, b1)"
    by blast
next
  show "post_conversation gw libraryId title b = (Response True body, b') \<and>
    fetchAllConversations gw (state, b') = (Inr (), state', b'') \<and>
    \<not> list_ex (matches libraryId title) (conversations state') \<longrightarrow>
      createConversation gw libraryId title (state, b) = (Inr None, state', b'')"
    by (auto simp: createConversation_def matches_def [abs_def] find_None_iff list_ex_iff)
qed

text \<open>The sub-fetch for the library of the new conversation fails during the refresh.\<close>

lemma demo_refresh_failing:
  "fetchAllConversations demo_gateway (initial_store\<lparr>libraries := [demo_library ''L3'' []]\<rparr>, reqs)
   = (Inr (), initial_store\<lparr>libraries := [demo_library ''L3'' []]\<rparr>,
      reqs @ [''GET /libraries/L3/conversations''])"
  by (simp add: fetchAllConversations_def demo_gateway_def demo_library_def initial_store_def)

theorem createConversation_may_return_undefined_witness:
  "createConversation demo_gateway ''L3'' ''Chat A''
      (initial_store\<lparr>libraries := [demo_library ''L3'' []]\<rparr>, [])
    = (Inr None, initial_store\<lparr>libraries := [demo_library ''L3'' []]\<rparr>,
       [''POST /libraries/L3/conversations'', ''GET /libraries/L3/conversations''])"
proof -
  have created: "post_conversation demo_gateway ''L3'' ''Chat A'' [] =
      (Response True (Some ()), [''POST /libraries/L3/conversations''])"
    by (simp add: demo_gateway_def)
  note refreshed = demo_refresh_failing [of "[''POST /libraries/L3/conversations'']"]
  have none: "\<not> list_ex (matches ''L3'' ''Chat A'')
      (conversations (initial_store\<lparr>libraries := [demo_library ''L3'' []]\<rparr>))"
    by (simp add: initial_store_def)
  from createConversation_may_return_undefined
      [where gw = demo_gateway and libraryId = "''L3''" and title = "''Chat A''" and b = "[]"
         and body = "Some ()" and b' = "[''POST /libraries/L3/conversations'']"
         and state = "initial_store\<lparr>libraries := [demo_library ''L3'' []]\<rparr>"
         and state' = "initial_store\<lparr>libraries := [demo_library ''L3'' []]\<rparr>"
         and b'' = "[''POST /libraries/L3/conversations''] @ [''GET /libraries/L3/conversations'']"]
    created refreshed none
  show ?thesis
    by simp
qed

subsection \<open>Refreshing the libraries\<close>

lemma fetchAllConversations_frame:
  "fetchAllConversations gw (state, b) = (r, state', b') \<Longrightarrow>
     libraries state' = libraries state \<and> currentLibrary state' = currentLibrary state"
  by (auto simp: fetchAllConversations_def split: prod.splits sum.splits)

lemma fetch_documents_all_ids:
  "fetch_documents_all gw libs b = (Inr libs', b') \<Longrightarrow> map lib_id libs' = map rl_id libs"
proof (induction libs arbitrary: b libs')
  case Nil
  then show ?case by simp
next
  case (Cons lib libs)
  then show ?case
    by (auto simp: library_of_raw_def
        split: prod.splits sum.splits Response.splits option.splits)
qed

lemma set_libraries_libraries [simp]: "libraries (set_libraries libs state) = libs"
  by (simp add: set_libraries_def Let_def)

lemma set_libraries_kept:
  "currentLibrary state = Some cur \<Longrightarrow> lib_id cur \<in> set (map lib_id libs) \<Longrightarrow>
     currentLibrary (set_libraries libs state) = Some cur"
  by (auto simp: set_libraries_def Let_def list_ex_iff)

lemma set_libraries_first:
  "\<forall>cur. currentLibrary state = Some cur \<longrightarrow> lib_id cur \<notin> set (map lib_id libs) \<Longrightarrow>
     currentLibrary (set_libraries libs state) =
       (case libs of [] \<Rightarrow> None | first # rest \<Rightarrow> Some first)"
proof (cases "currentLibrary state")
  case None
  then show ?thesis
    by (cases libs) (simp_all add: set_libraries_def Let_def)
next
  case (Some cur)
  assume "\<forall>cur. currentLibrary state = Some cur \<longrightarrow> lib_id cur \<notin> set (map lib_id libs)"
  with Some have "lib_id cur \<notin> lib_id ` set libs"
    by simp
  then have "\<not> list_ex (\<lambda>lib. lib_id lib = lib_id cur) libs"
    unfolding list_ex_iff by (metis imageI)
  with Some show ?thesis
    by (cases libs) (simp_all add: set_libraries_def Let_def)
qed

lemma set_libraries_selection:
  "currentLibrary (set_libraries libs state) = None \<or>
   (\<exists>lib. currentLibrary (set_libraries libs state) = Some lib \<and>
          lib_id lib \<in> set (map lib_id libs))"
proof (cases "\<exists>cur. currentLibrary state = Some cur \<and> lib_id cur \<in> set (map lib_id libs)")
  case True
  then show ?thesis
    using set_libraries_kept by blast
next
  case False
  then have "currentLibrary (set_libraries libs state) =
      (case libs of [] \<Rightarrow> None | first # rest \<Rightarrow> Some first)"
    by (intro set_libraries_first) blast
  then show ?thesis
    by (cases libs) auto
qed

text \<open>
  C1. For every store, backend and backend state, when \<^verbatim>\<open>fetchLibraries\<close> completes the
  libraries of the store are the collection the backend returned (same ids, same order),
  and \<^verbatim>\<open>currentLibrary\<close> is \<^verbatim>\<open>null\<close> or a library whose id is in that collection. When
  the library selected before has an id that is not in the collection,
  \<^verbatim>\<open>currentLibrary\<close> is the first library of the collection, or \<^verbatim>\<open>null\<close> when the
  collection is empty.
\<close>

theorem fetchLibraries_repairs_selection:
  assumes "fetchLibraries gw (state, b) = (Inr (), state', b')"
  shows "(currentLibrary state' = None \<or>
          (\<exists>lib. currentLibrary state' = Some lib \<and>
                 lib_id lib \<in> set (map lib_id (libraries state')))) \<and>
         ((\<forall>cur. currentLibrary state = Some cur \<longrightarrow>
                   lib_id cur \<notin> set (map lib_id (libraries state'))) \<longrightarrow>
            currentLibrary state' =
              (case libraries state' of [] \<Rightarrow> None | first # rest \<Rightarrow> Some first)) \<and>
         (\<exists>ok libs b1. get_libraries gw b = (Response ok (Some libs), b1) \<and>
            map lib_id (libraries state') = map rl_id libs)"
proof -
  from assms obtain ok libs b1 libs' b2 where
    listed: "get_libraries gw b = (Response ok (Some libs), b1)"
    and docs: "fetch_documents_all gw libs b1 = (Inr libs', b2)"
    and convs: "fetchAllConversations gw (set_libraries libs' state, b2) = (Inr (), state', b')"
    by (auto simp: fetchLibraries_def
        split: prod.splits sum.splits Response.splits option.splits)
  from fetchAllConversations_frame [OF convs]
  have libs: "libraries state' = libs'"
    and cur: "currentLibrary state' = currentLibrary (set_libraries libs' state)"
    by simp_all
  from fetch_documents_all_ids [OF docs] listed libs
  have "\<exists>ok libs b1. get_libraries gw b = (Response ok (Some libs), b1) \<and>
            map lib_id (libraries state') = map rl_id libs"
    by blast
  with set_libraries_selection [of libs' state] set_libraries_first [of state libs'] libs cur
  show ?thesis
    by simp
qed

lemma demo_fetchLibraries:
  "fetchLibraries demo_gateway (state, []) =
     (Inr (),
      set_libraries [library_of_raw (demo_raw_library ''L1'') [],
                     library_of_raw (demo_raw_library ''L2'') []] state
        \<lparr>conversations :=
           [demo_conversation ''c-L1'' ''L1'' ''Chat A'', demo_conversation ''d-L1'' ''L1'' ''Chat A'',
            demo_conversation ''c-L2'' ''L2'' ''Chat A'', demo_conversation ''d-L2'' ''L2'' ''Chat A'']\<rparr>,
      [''GET /libraries'', ''GET /libraries/L1/documents'', ''GET /libraries/L2/documents'',
       ''GET /libraries/L1/conversations'', ''GET /libraries/L2/conversations''])"
  by (simp add: fetchLibraries_def fetchAllConversations_def demo_gateway_def
      set_libraries_def Let_def library_of_raw_def demo_raw_library_def)

theorem fetchLibraries_repairs_selection_witness:
  "\<exists>state' b'.
     fetchLibraries demo_gateway
       (initial_store\<lparr>libraries := [demo_library ''L7'' []],
                       currentLibrary := Some (demo_library ''L7'' [])\<rparr>, []) = (Inr (), state', b') \<and>
     map lib_id (libraries state') = [''L1'', ''L2''] \<and>
     currentLibrary state' = Some (library_of_raw (demo_raw_library ''L1'') [])"
proof -
  let ?s = "initial_store\<lparr>libraries := [demo_library ''L7'' []],
                       currentLibrary := Some (demo_library ''L7'' [])\<rparr>"
  obtain state' b' where run: "fetchLibraries demo_gateway (?s, []) = (Inr (), state', b')"
    using demo_fetchLibraries [of ?s] by blast
  have libs: "libraries state' =
      [library_of_raw (demo_raw_library ''L1'') [], library_of_raw (demo_raw_library ''L2'') []]"
    using run demo_fetchLibraries [of ?s] by (auto simp: set_libraries_def Let_def)
  then have ids: "map lib_id (libraries state') = [''L1'', ''L2'']"
    by (simp add: library_of_raw_def demo_raw_library_def)
  have gone: "\<forall>cur. currentLibrary ?s = Some cur \<longrightarrow>
      lib_id cur \<notin> set (map lib_id (libraries state'))"
    by (simp add: ids demo_library_def)
  from fetchLibraries_repairs_selection [OF run] gone libs
  have cur: "currentLibrary state' = Some (library_of_raw (demo_raw_library ''L1'') [])"
    by simp
  show ?thesis
    by (rule exI [of _ state'], rule exI [of _ b']) (simp add: run ids cur)
qed

end
